theory Spec2Isabelle
  imports Complex_Main "HOL-Library.Multiset"
begin

section \<open>Python values and the builtins the extractor relies on\<close>

text \<open>
  The extractor of \<^verbatim>\<open>src/inpi/financial_extractor.py\<close> walks a document obtained
  from a JSON decoder, so every value it meets is one of: \<^verbatim>\<open>None\<close>, a bool, an int,
  a float, a str, a list, or a dict with str keys. A dict is kept as an association list
  in insertion order; a lookup takes the first binding of a key.

  A Python \<^verbatim>\<open>str\<close> is modelled by a \<^typ>\<open>string\<close> whose characters are the code
  points 0 to 255. The tables below (\<open>py_isspace\<close>, \<open>py_isdigit_char\<close>) are the Unicode
  properties restricted to that range.

  A float is kept as its class: a finite value (a rational), an infinity, or a NaN.
  The extractor does only two things with a float: it compares it with a str, and it
  passes it to \<^verbatim>\<open>int()\<close>.
\<close>

datatype py_float = Finite rat | PosInf | NegInf | NaN

datatype json =
    JNull
  | JBool bool
  | JInt int
  | JFloat py_float
  | JStr string
  | JList "json list"
  | JDict "(string \<times> json) list"

text \<open>The exception classes that occur. The messages carried by the exceptions are dropped.\<close>

datatype py_error =
    StopIteration
  | ValueError
  | KeyError
  | IndexError
  | TypeError
  | AttributeError
  | OverflowError
  | InvalidSirenError

text \<open>\<^verbatim>\<open>x.get(key, default)\<close>: only a dict has the method.\<close>

fun py_get :: "json \<Rightarrow> string \<Rightarrow> json \<Rightarrow> py_error + json" where
  "py_get (JDict kvs) k d = Inr (case map_of kvs k of Some v \<Rightarrow> v | None \<Rightarrow> d)"
| "py_get _ k d = Inl AttributeError"

text \<open>
  \<^verbatim>\<open>for x in v\<close>: a list gives its elements, a dict its keys, a str its one-character
  strings; anything else is not iterable.
\<close>

fun py_iter :: "json \<Rightarrow> py_error + json list" where
  "py_iter (JList xs) = Inr xs"
| "py_iter (JDict kvs) = Inr (map (\<lambda>kv. JStr (fst kv)) kvs)"
| "py_iter (JStr s) = Inr (map (\<lambda>c. JStr [c]) s)"
| "py_iter _ = Inl TypeError"

text \<open>\<^verbatim>\<open>v[key]\<close> with a str key.\<close>

fun py_getitem_str :: "json \<Rightarrow> string \<Rightarrow> py_error + json" where
  "py_getitem_str (JDict kvs) k =
     (case map_of kvs k of Some v \<Rightarrow> Inr v | None \<Rightarrow> Inl KeyError)"
| "py_getitem_str _ k = Inl TypeError"

text \<open>
  \<^verbatim>\<open>seq[i]\<close> on a list or a str of length \<open>n\<close>: the positions \<open>0 \<dots> n-1\<close> are read
  directly, the positions \<open>-n \<dots> -1\<close> are read from the end, and every other position
  raises IndexError.
\<close>

definition py_index :: "'a list \<Rightarrow> int \<Rightarrow> py_error + 'a" where
  "py_index xs i =
     (if 0 \<le> i \<and> i < int (length xs) then Inr (xs ! nat i)
      else if i < 0 \<and> - int (length xs) \<le> i then Inr (xs ! nat (int (length xs) + i))
      else Inl IndexError)"

text \<open>
  \<^verbatim>\<open>v[position]\<close> with an int. The keys of a decoded JSON object are strings, so an
  int is never a key of a dict.
\<close>

fun py_getitem_int :: "json \<Rightarrow> int \<Rightarrow> py_error + json" where
  "py_getitem_int (JList xs) i = py_index xs i"
| "py_getitem_int (JStr s) i =
     (case py_index s i of Inl e \<Rightarrow> Inl e | Inr c \<Rightarrow> Inr (JStr [c]))"
| "py_getitem_int (JDict kvs) i = Inl KeyError"
| "py_getitem_int _ i = Inl TypeError"

subsection \<open>\<^verbatim>\<open>int()\<close>\<close>

definition is_ascii_digit :: "char \<Rightarrow> bool" where
  "is_ascii_digit c = (48 \<le> (of_char c :: nat) \<and> (of_char c :: nat) \<le> 57)"

definition digit_val :: "char \<Rightarrow> int" where
  "digit_val c = int (of_char c) - 48"

text \<open>
  The characters \<^verbatim>\<open>int()\<close> strips from both ends of a str: tab, LF, VT, FF, CR, space,
  and the two non-ASCII spaces of the range, U+0085 and U+00A0.
\<close>

definition py_isspace :: "char \<Rightarrow> bool" where
  "py_isspace c = ((of_char c :: nat) \<in> {9, 10, 11, 12, 13, 32, 133, 160})"

text \<open>
  The digits of a literal, with single underscores allowed between digits only. The flag
  says whether the previous character was a digit.
\<close>

fun digits_ok :: "bool \<Rightarrow> string \<Rightarrow> bool" where
  "digits_ok prev [] = prev"
| "digits_ok prev (c # cs) =
     (if is_ascii_digit c then digits_ok True cs
      else if c = CHR ''_'' \<and> prev then digits_ok False cs
      else False)"

definition digits_value :: "string \<Rightarrow> int" where
  "digits_value s = foldl (\<lambda>acc c. 10 * acc + digit_val c) 0 (filter is_ascii_digit s)"

text \<open>The default limit on the number of digits of a decimal literal.\<close>

definition int_max_str_digits :: nat where
  "int_max_str_digits = 4300"

definition parse_unsigned :: "string \<Rightarrow> py_error + int" where
  "parse_unsigned s =
     (if digits_ok False s \<and> length (filter is_ascii_digit s) \<le> int_max_str_digits
      then Inr (digits_value s) else Inl ValueError)"

definition py_strip :: "string \<Rightarrow> string" where
  "py_strip s = rev (dropWhile py_isspace (rev (dropWhile py_isspace s)))"

definition py_int_of_str :: "string \<Rightarrow> py_error + int" where
  "py_int_of_str s =
     (case py_strip s of
        [] \<Rightarrow> Inl ValueError
      | c # cs \<Rightarrow>
          if c = CHR ''-'' then
            (case parse_unsigned cs of Inl e \<Rightarrow> Inl e | Inr n \<Rightarrow> Inr (- n))
          else if c = CHR ''+'' then parse_unsigned cs
          else parse_unsigned (c # cs))"

text \<open>Truncation toward zero, as \<^verbatim>\<open>int()\<close> does on a finite float.\<close>

definition py_trunc :: "rat \<Rightarrow> int" where
  "py_trunc q = (if 0 \<le> q then \<lfloor>q\<rfloor> else \<lceil>q\<rceil>)"

fun py_int :: "json \<Rightarrow> py_error + int" where
  "py_int (JInt n) = Inr n"
| "py_int (JBool b) = Inr (if b then 1 else 0)"
| "py_int (JStr s) = py_int_of_str s"
| "py_int (JFloat (Finite q)) = Inr (py_trunc q)"
| "py_int (JFloat NaN) = Inl ValueError"
| "py_int (JFloat PosInf) = Inl OverflowError"
| "py_int (JFloat NegInf) = Inl OverflowError"
| "py_int JNull = Inl TypeError"
| "py_int (JList xs) = Inl TypeError"
| "py_int (JDict kvs) = Inl TypeError"

section \<open>The mapping tables\<close>

datatype BilanType = TBC | TBS | TBK | TBB | TBAC | TBAS

text \<open>A code mapping is a dict with the two keys \<^verbatim>\<open>"field"\<close> and \<^verbatim>\<open>"code"\<close>.\<close>

record mapping =
  field :: string
  code :: string

definition mk :: "string \<Rightarrow> string \<Rightarrow> mapping" where
  "mk f c = \<lparr>field = f, code = c\<rparr>"

text \<open>
  A table is a dict keyed by bilan type, kept in insertion order; a component set is a
  dict from a component name to a mapping.
\<close>

definition CHIFFRE_AFFAIRES :: "(BilanType \<times> mapping) list" where
  "CHIFFRE_AFFAIRES = [(TBC, mk ''m3'' ''FJ''), (TBK, mk ''m3'' ''FJ'')]"

definition CHIFFRE_AFFAIRES_N_1 :: "(BilanType \<times> mapping) list" where
  "CHIFFRE_AFFAIRES_N_1 = [(TBC, mk ''m4'' ''FJ''), (TBK, mk ''m4'' ''FJ'')]"

definition CHIFFRE_AFFAIRES_TBS :: "(string \<times> mapping) list" where
  "CHIFFRE_AFFAIRES_TBS =
     [(''ventes_marchandises_export'', mk ''m1'' ''209''),
      (''production_biens_export'', mk ''m1'' ''215''),
      (''production_services_export'', mk ''m1'' ''217''),
      (''ventes_marchandises_france'', mk ''m1'' ''210''),
      (''production_biens_france'', mk ''m1'' ''214''),
      (''production_services_france'', mk ''m1'' ''218'')]"

definition CHIFFRE_AFFAIRES_N_1_TBS :: "(string \<times> mapping) list" where
  "CHIFFRE_AFFAIRES_N_1_TBS =
     [(''ventes_marchandises'', mk ''m2'' ''210''),
      (''production_biens'', mk ''m2'' ''214''),
      (''production_services'', mk ''m2'' ''218'')]"

definition CAPITAUX_PROPRES :: "(BilanType \<times> mapping) list" where
  "CAPITAUX_PROPRES =
     [(TBC, mk ''m1'' ''DL''), (TBS, mk ''m3'' ''142''), (TBK, mk ''m1'' ''DL'')]"

definition CAPITAUX_PROPRES_N_1 :: "(BilanType \<times> mapping) list" where
  "CAPITAUX_PROPRES_N_1 =
     [(TBC, mk ''m2'' ''DL''), (TBS, mk ''m4'' ''142''), (TBK, mk ''m2'' ''DL'')]"

definition CAPITAUX_PROPRES_TBB :: "(string \<times> mapping) list" where
  "CAPITAUX_PROPRES_TBB =
     [(''capital_souscrit'', mk ''m1'' ''P3''),
      (''primes_emission'', mk ''m1'' ''P4''),
      (''reserves'', mk ''m1'' ''P5''),
      (''ecarts_reevaluation'', mk ''m1'' ''P6''),
      (''report_nouveau'', mk ''m1'' ''P7''),
      (''resultat_exercice'', mk ''m1'' ''P8'')]"

definition CAPITAUX_PROPRES_N_1_TBB :: "(string \<times> mapping) list" where
  "CAPITAUX_PROPRES_N_1_TBB =
     [(''capital_souscrit'', mk ''m2'' ''P3''),
      (''primes_emission'', mk ''m2'' ''P4''),
      (''reserves'', mk ''m2'' ''P5''),
      (''ecarts_reevaluation'', mk ''m2'' ''P6''),
      (''report_nouveau'', mk ''m2'' ''P7''),
      (''resultat_exercice'', mk ''m2'' ''P8'')]"

text \<open>
  An entry of the profit/loss tables is either one mapping or a list of mappings; the
  getter tells them apart with \<^verbatim>\<open>isinstance(mapping, list)\<close>.
\<close>

datatype entry = Single mapping | Fallback "mapping list"

definition BENEFICE_PERTE :: "(BilanType \<times> entry) list" where
  "BENEFICE_PERTE =
     [(TBK, Single (mk ''m1'' ''R6'')),
      (TBS, Fallback [mk ''m1'' ''310'', mk ''m3'' ''136'']),
      (TBC, Fallback [mk ''m1'' ''HN'', mk ''m1'' ''DI''])]"

definition BENEFICE_PERTE_N_1 :: "(BilanType \<times> entry) list" where
  "BENEFICE_PERTE_N_1 =
     [(TBK, Single (mk ''m2'' ''R6'')),
      (TBS, Fallback [mk ''m2'' ''310'', mk ''m4'' ''136'']),
      (TBC, Fallback [mk ''m2'' ''HN'', mk ''m2'' ''DI''])]"

definition RESULTAT_EXERCICE_TBB :: "mapping list" where
  "RESULTAT_EXERCICE_TBB = [mk ''m1'' ''R3'', mk ''m1'' ''P8'']"

definition RESULTAT_EXERCICE_N_1_TBB :: "mapping list" where
  "RESULTAT_EXERCICE_N_1_TBB = [mk ''m2'' ''R3'', mk ''m2'' ''P8'']"

definition EFFECTIF :: "(BilanType \<times> mapping) list" where
  "EFFECTIF = [(TBS, mk ''m1'' ''376''), (TBC, mk ''m1'' ''YP'')]"

definition EFFECTIF_N_1 :: "(BilanType \<times> mapping) list" where
  "EFFECTIF_N_1 = [(TBS, mk ''m2'' ''376''), (TBC, mk ''m2'' ''YP'')]"

section \<open>The extractor\<close>

text \<open>
  A result is \<open>Inr (Some n)\<close> for a returned int, \<open>Inr None\<close> for a returned
  \<^verbatim>\<open>None\<close>, and \<open>Inl e\<close> for an exception that leaves the function.
\<close>

type_synonym result = "py_error + int option"

text \<open>
  The generator expression of \<^verbatim>\<open>extract_from_pages\<close>, pulled once by \<^verbatim>\<open>next\<close>. The
  inner loop runs over the items of one page and stops at the first item whose
  \<^verbatim>\<open>.get("code")\<close> equals the code: the value of the generator is then
  \<^verbatim>\<open>int(liasse[field])\<close>, which is \<open>read_cell\<close>. \<open>Inr None\<close> says the items are
  exhausted.
\<close>

definition read_cell :: "string \<Rightarrow> json \<Rightarrow> py_error + int" where
  "read_cell fld liasse =
     (case py_getitem_str liasse fld of Inl e \<Rightarrow> Inl e | Inr v \<Rightarrow> py_int v)"

fun next_in_liasses :: "string \<Rightarrow> string \<Rightarrow> json list \<Rightarrow> py_error + int option" where
  "next_in_liasses fld cd [] = Inr None"
| "next_in_liasses fld cd (liasse # rest) =
     (case py_get liasse ''code'' JNull of
        Inl e \<Rightarrow> Inl e
      | Inr c \<Rightarrow>
          if c = JStr cd then
            (case read_cell fld liasse of Inl e \<Rightarrow> Inl e | Inr n \<Rightarrow> Inr (Some n))
          else next_in_liasses fld cd rest)"

text \<open>The items of one page: \<^verbatim>\<open>page.get("liasses", [])\<close>, iterated.\<close>

definition page_liasses :: "json \<Rightarrow> py_error + json list" where
  "page_liasses page =
     (case py_get page ''liasses'' (JList []) of Inl e \<Rightarrow> Inl e | Inr ls \<Rightarrow> py_iter ls)"

text \<open>The outer loop; an exhausted generator makes \<^verbatim>\<open>next\<close> raise StopIteration.\<close>

fun next_in_pages :: "string \<Rightarrow> string \<Rightarrow> json list \<Rightarrow> py_error + int" where
  "next_in_pages fld cd [] = Inl StopIteration"
| "next_in_pages fld cd (page # rest) =
     (case page_liasses page of
        Inl e \<Rightarrow> Inl e
      | Inr items \<Rightarrow>
          (case next_in_liasses fld cd items of
             Inl e \<Rightarrow> Inl e
           | Inr (Some n) \<Rightarrow> Inr n
           | Inr None \<Rightarrow> next_in_pages fld cd rest))"

definition extract_caught :: "py_error \<Rightarrow> bool" where
  "extract_caught e = (e \<in> {StopIteration, ValueError, KeyError, TypeError})"

definition extract_from_pages :: "json \<Rightarrow> string \<Rightarrow> string \<Rightarrow> result" where
  "extract_from_pages pages fld cd =
     (case (case py_iter pages of Inl e \<Rightarrow> Inl e | Inr ps \<Rightarrow> next_in_pages fld cd ps) of
        Inr v \<Rightarrow> Inr (Some v)
      | Inl e \<Rightarrow> if extract_caught e then Inr None else Inl e)"

fun extract_with_fallback :: "json \<Rightarrow> mapping list \<Rightarrow> result" where
  "extract_with_fallback pages [] = Inr None"
| "extract_with_fallback pages (m # ms) =
     (case extract_from_pages pages (field m) (code m) of
        Inl e \<Rightarrow> Inl e
      | Inr (Some v) \<Rightarrow> Inr (Some v)
      | Inr None \<Rightarrow> extract_with_fallback pages ms)"

text \<open>
  The loop of \<^verbatim>\<open>extract_sum_from_components\<close> over \<^verbatim>\<open>components.values()\<close>; the
  accumulator is the variable \<^verbatim>\<open>total\<close>.
\<close>

fun sum_loop :: "json \<Rightarrow> mapping list \<Rightarrow> int \<Rightarrow> py_error + int" where
  "sum_loop pages [] acc = Inr acc"
| "sum_loop pages (m # ms) acc =
     (case extract_from_pages pages (field m) (code m) of
        Inl e \<Rightarrow> Inl e
      | Inr (Some v) \<Rightarrow> sum_loop pages ms (acc + v)
      | Inr None \<Rightarrow> sum_loop pages ms acc)"

definition extract_sum_from_components :: "json \<Rightarrow> (string \<times> mapping) list \<Rightarrow> result" where
  "extract_sum_from_components pages components =
     (case sum_loop pages (map snd components) 0 of
        Inl e \<Rightarrow> Inl e
      | Inr t \<Rightarrow> Inr (if t > 0 then Some t else None))"

subsection \<open>The getters\<close>

text \<open>
  The first statement of every getter:
  \<^verbatim>\<open>bilan_data["bilansSaisis"][position]["bilanSaisi"]["bilan"]["detail"]["pages"]\<close>.
\<close>

definition navigate :: "json \<Rightarrow> int \<Rightarrow> py_error + json" where
  "navigate bilan_data position =
     (case py_getitem_str bilan_data ''bilansSaisis'' of Inl e \<Rightarrow> Inl e | Inr a \<Rightarrow>
     (case py_getitem_int a position of Inl e \<Rightarrow> Inl e | Inr b \<Rightarrow>
     (case py_getitem_str b ''bilanSaisi'' of Inl e \<Rightarrow> Inl e | Inr c \<Rightarrow>
     (case py_getitem_str c ''bilan'' of Inl e \<Rightarrow> Inl e | Inr d \<Rightarrow>
     (case py_getitem_str d ''detail'' of Inl e \<Rightarrow> Inl e | Inr f \<Rightarrow>
      py_getitem_str f ''pages'')))))"

definition getter_caught :: "py_error \<Rightarrow> bool" where
  "getter_caught e = (e \<in> {KeyError, IndexError, TypeError})"

text \<open>
  The \<^verbatim>\<open>try\<close> block of a getter: a caught exception, and a body that falls through,
  both end in \<^verbatim>\<open>return None\<close>.
\<close>

definition try_getter :: "result \<Rightarrow> result" where
  "try_getter body =
     (case body of
        Inl e \<Rightarrow> if getter_caught e then Inr None else Inl e
      | Inr r \<Rightarrow> Inr r)"

definition get_capitaux_propres :: "json \<Rightarrow> int \<Rightarrow> BilanType \<Rightarrow> bool \<Rightarrow> result" where
  "get_capitaux_propres bilan_data position bilan_type n_minus_1 =
     try_getter
       (case navigate bilan_data position of
          Inl e \<Rightarrow> Inl e
        | Inr pages \<Rightarrow>
            if bilan_type = TBB then
              extract_sum_from_components pages
                (if n_minus_1 then CAPITAUX_PROPRES_N_1_TBB else CAPITAUX_PROPRES_TBB)
            else
              (case map_of (if n_minus_1 then CAPITAUX_PROPRES_N_1 else CAPITAUX_PROPRES)
                      bilan_type of
                 Some m \<Rightarrow> extract_from_pages pages (field m) (code m)
               | None \<Rightarrow> Inr None))"

definition get_benefice_perte :: "json \<Rightarrow> int \<Rightarrow> BilanType \<Rightarrow> bool \<Rightarrow> result" where
  "get_benefice_perte bilan_data position bilan_type n_minus_1 =
     try_getter
       (case navigate bilan_data position of
          Inl e \<Rightarrow> Inl e
        | Inr pages \<Rightarrow>
            (case map_of (if n_minus_1 then BENEFICE_PERTE_N_1 else BENEFICE_PERTE)
                    bilan_type of
               Some (Fallback ms) \<Rightarrow> extract_with_fallback pages ms
             | Some (Single m) \<Rightarrow> extract_from_pages pages (field m) (code m)
             | None \<Rightarrow> Inr None))"

definition get_resultat_exercice_tbb :: "json \<Rightarrow> int \<Rightarrow> bool \<Rightarrow> result" where
  "get_resultat_exercice_tbb bilan_data position n_minus_1 =
     try_getter
       (case navigate bilan_data position of
          Inl e \<Rightarrow> Inl e
        | Inr pages \<Rightarrow>
            extract_with_fallback pages
              (if n_minus_1 then RESULTAT_EXERCICE_N_1_TBB else RESULTAT_EXERCICE_TBB))"

definition get_chiffre_affaires :: "json \<Rightarrow> int \<Rightarrow> BilanType \<Rightarrow> bool \<Rightarrow> result" where
  "get_chiffre_affaires bilan_data position bilan_type n_minus_1 =
     try_getter
       (case navigate bilan_data position of
          Inl e \<Rightarrow> Inl e
        | Inr pages \<Rightarrow>
            if bilan_type = TBS then
              extract_sum_from_components pages
                (if n_minus_1 then CHIFFRE_AFFAIRES_N_1_TBS else CHIFFRE_AFFAIRES_TBS)
            else
              (case map_of (if n_minus_1 then CHIFFRE_AFFAIRES_N_1 else CHIFFRE_AFFAIRES)
                      bilan_type of
                 Some m \<Rightarrow> extract_from_pages pages (field m) (code m)
               | None \<Rightarrow> Inr None))"

definition get_effectif :: "json \<Rightarrow> int \<Rightarrow> BilanType \<Rightarrow> bool \<Rightarrow> result" where
  "get_effectif bilan_data position bilan_type n_minus_1 =
     try_getter
       (case navigate bilan_data position of
          Inl e \<Rightarrow> Inl e
        | Inr pages \<Rightarrow>
            (case map_of (if n_minus_1 then EFFECTIF_N_1 else EFFECTIF) bilan_type of
               Some m \<Rightarrow> extract_from_pages pages (field m) (code m)
             | None \<Rightarrow> Inr None))"

section \<open>The SIREN validator\<close>

text \<open>
  \<^verbatim>\<open>str.isdigit\<close> on one character: the ASCII digits, and the three superscript
  digits of the range, U+00B2, U+00B3 and U+00B9.
\<close>

definition py_isdigit_char :: "char \<Rightarrow> bool" where
  "py_isdigit_char c = (is_ascii_digit c \<or> (of_char c :: nat) \<in> {178, 179, 185})"

definition py_isdigit :: "string \<Rightarrow> bool" where
  "py_isdigit s = (s \<noteq> [] \<and> list_all py_isdigit_char s)"

text \<open>\<^verbatim>\<open>s.replace(c, "")\<close> for a one-character \<^verbatim>\<open>c\<close>.\<close>

definition remove_char :: "char \<Rightarrow> string \<Rightarrow> string" where
  "remove_char c s = filter (\<lambda>x. x \<noteq> c) s"

definition strip_separators :: "string \<Rightarrow> string" where
  "strip_separators s = remove_char CHR ''.'' (remove_char CHR ''-'' (remove_char CHR '' '' s))"

text \<open>
  \<^verbatim>\<open>validate_siren\<close> on an \<^verbatim>\<open>Optional[str]\<close>; the result \<open>Inr None\<close> is the
  \<^verbatim>\<open>None\<close> returned when \<^verbatim>\<open>allow_none\<close> is set. The conversion \<^verbatim>\<open>str(siren)\<close>
  of an argument that is neither \<^verbatim>\<open>None\<close> nor a str lies outside this input type.
\<close>

definition validate_siren :: "string option \<Rightarrow> bool \<Rightarrow> py_error + string option" where
  "validate_siren siren allow_none =
     (case siren of
        None \<Rightarrow> if allow_none then Inr None else Inl InvalidSirenError
      | Some s \<Rightarrow>
          (let t = strip_separators s
           in if length t \<noteq> 9 then Inl InvalidSirenError
              else if \<not> py_isdigit t then Inl InvalidSirenError
              else Inr (Some t)))"

section \<open>Vocabulary of the properties\<close>

text \<open>
  A lookup \<^emph>\<open>returns\<close> when no exception leaves it, and is \<^emph>\<open>absent\<close> when it returns
  \<^verbatim>\<open>None\<close>. The contribution of a component to a sum is its value, or zero when it
  is absent.
\<close>

definition lookup_returns :: "json \<Rightarrow> mapping \<Rightarrow> bool" where
  "lookup_returns pages m =
     (case extract_from_pages pages (field m) (code m) of Inr r \<Rightarrow> True | Inl e \<Rightarrow> False)"

definition absent :: "json \<Rightarrow> mapping \<Rightarrow> bool" where
  "absent pages m = (extract_from_pages pages (field m) (code m) = Inr None)"

definition contribution :: "json \<Rightarrow> mapping \<Rightarrow> int" where
  "contribution pages m =
     (case extract_from_pages pages (field m) (code m) of Inr (Some v) \<Rightarrow> v | _ \<Rightarrow> 0)"

definition lookups_return :: "json \<Rightarrow> (string \<times> mapping) list \<Rightarrow> bool" where
  "lookups_return pages components = list_all (lookup_returns pages) (map snd components)"

definition all_absent :: "json \<Rightarrow> (string \<times> mapping) list \<Rightarrow> bool" where
  "all_absent pages components = list_all (absent pages) (map snd components)"

definition component_total :: "json \<Rightarrow> (string \<times> mapping) list \<Rightarrow> int" where
  "component_total pages components = sum_list (map (contribution pages) (map snd components))"

text \<open>The two exception classes that no handler of the extractor names.\<close>

definition may_escape :: "py_error \<Rightarrow> bool" where
  "may_escape e = (e = AttributeError \<or> e = OverflowError)"

text \<open>Shapes of a document: no \<^verbatim>\<open>bilansSaisis\<close> key, and a position outside the array.\<close>

fun lacks_bilansSaisis :: "json \<Rightarrow> bool" where
  "lacks_bilansSaisis (JDict kvs) = (map_of kvs ''bilansSaisis'' = None)"
| "lacks_bilansSaisis _ = False"

fun position_out_of_bounds :: "json \<Rightarrow> int \<Rightarrow> bool" where
  "position_out_of_bounds (JDict kvs) pos =
     (case map_of kvs ''bilansSaisis'' of
        Some (JList bs) \<Rightarrow> int (length bs) \<le> pos \<or> pos < - int (length bs)
      | _ \<Rightarrow> False)"
| "position_out_of_bounds _ pos = False"

text \<open>
  A line carries a code when it is an object whose \<^verbatim>\<open>code\<close> is that string. A page
  has a code when one of its lines carries it.
\<close>

fun is_dict :: "json \<Rightarrow> bool" where
  "is_dict (JDict kvs) = True"
| "is_dict _ = False"

definition has_code :: "string \<Rightarrow> json \<Rightarrow> bool" where
  "has_code cd l = (py_get l ''code'' JNull = Inr (JStr cd))"

definition page_lines :: "json \<Rightarrow> json list" where
  "page_lines page = (case page_liasses page of Inr items \<Rightarrow> items | Inl e \<Rightarrow> [])"

definition page_has_code :: "string \<Rightarrow> json \<Rightarrow> bool" where
  "page_has_code cd page = list_ex (has_code cd) (page_lines page)"

text \<open>
  A line is plain for a code when it is an object that does not carry the code. A page is
  passed over when its \<^verbatim>\<open>liasses\<close> value (an empty list if there is none) can be
  iterated and gives plain lines only.
\<close>

definition plain :: "string \<Rightarrow> json \<Rightarrow> bool" where
  "plain cd x = (is_dict x \<and> \<not> has_code cd x)"

definition passed_over :: "string \<Rightarrow> json \<Rightarrow> bool" where
  "passed_over cd page =
     (case page_liasses page of Inr items \<Rightarrow> list_all (plain cd) items | Inl e \<Rightarrow> False)"

text \<open>
  \<open>line_hit cd items l\<close>: the line \<open>l\<close> is the first of the items that carries the code,
  and the items before it are plain. \<open>hit cd ps l\<close>: the line \<open>l\<close> is so on some page of
  the list, and the pages before that page are passed over. Nothing is asked of the
  lines and pages after \<open>l\<close>.
\<close>

fun line_hit :: "string \<Rightarrow> json list \<Rightarrow> json \<Rightarrow> bool" where
  "line_hit cd [] l = False"
| "line_hit cd (x # xs) l = (if has_code cd x then x = l else is_dict x \<and> line_hit cd xs l)"

fun hit :: "string \<Rightarrow> json list \<Rightarrow> json \<Rightarrow> bool" where
  "hit cd [] l = False"
| "hit cd (p # rest) l =
     (case page_liasses p of
        Inl e \<Rightarrow> False
      | Inr items \<Rightarrow> line_hit cd items l \<or> (list_all (plain cd) items \<and> hit cd rest l))"

text \<open>
  The end of the path of a getter, from one statement:
  \<^verbatim>\<open>statement["bilanSaisi"]["bilan"]["detail"]["pages"]\<close>.
\<close>

definition statement_pages :: "json \<Rightarrow> py_error + json" where
  "statement_pages b =
     (case py_getitem_str b ''bilanSaisi'' of Inl e \<Rightarrow> Inl e | Inr c \<Rightarrow>
     (case py_getitem_str c ''bilan'' of Inl e \<Rightarrow> Inl e | Inr d \<Rightarrow>
     (case py_getitem_str d ''detail'' of Inl e \<Rightarrow> Inl e | Inr f \<Rightarrow>
      py_getitem_str f ''pages'')))"

section \<open>Documents used in the examples\<close>

definition liasse :: "string \<Rightarrow> (string \<times> string) list \<Rightarrow> json" where
  "liasse cd cells = JDict ((''code'', JStr cd) # map (\<lambda>kv. (fst kv, JStr (snd kv))) cells)"

definition page_of :: "json list \<Rightarrow> json" where
  "page_of items = JDict [(''liasses'', JList items)]"

definition statement_of :: "string \<Rightarrow> json \<Rightarrow> json" where
  "statement_of type_bilan pages =
     JDict [(''bilanSaisi'',
       JDict [(''bilan'',
         JDict [(''identite'', JDict [(''typeBilan'', JStr type_bilan)]),
                (''detail'', JDict [(''pages'', pages)])])])]"

definition document_of :: "json list \<Rightarrow> json" where
  "document_of statements = JDict [(''bilansSaisis'', JList statements)]"

text \<open>Scenario 1: one filing of type C with the line DL.\<close>

definition dl_line :: json where
  "dl_line = liasse ''DL'' [(''m1'', ''50000''), (''m2'', ''48000'')]"

definition pages_equity :: json where
  "pages_equity = JList [page_of [liasse ''DL'' [(''m1'', ''50000''), (''m2'', ''48000'')]]]"

definition doc_equity :: json where
  "doc_equity = document_of [statement_of ''C'' pages_equity]"






text \<open>
  Three pages: one with the line DL, one with another line, and one whose
  \<^verbatim>\<open>liasses\<close> value is \<^verbatim>\<open>null\<close>.
\<close>

definition page_dl :: json where
  "page_dl = page_of [liasse ''DL'' [(''m1'', ''5'')]]"

definition page_fj :: json where
  "page_fj = page_of [liasse ''FJ'' [(''m3'', ''7'')]]"

definition page_null_liasses :: json where
  "page_null_liasses = JDict [(''liasses'', JNull)]"

text \<open>
  The filing of scenario 1 with a second line DL placed before the first, and the filing
  of scenario 2 with a second line 210 placed before the first.
\<close>

definition doc_equity_shadowed :: json where
  "doc_equity_shadowed =
     document_of [statement_of ''C''
       (JList [page_of [liasse ''DL'' [(''m1'', ''1''), (''m2'', ''2'')],
                        liasse ''DL'' [(''m1'', ''50000''), (''m2'', ''48000'')]]])]"



text \<open>
  Pages on which the lines of the two scenarios come after other lines and before lines
  and pages that are not objects.
\<close>

definition pages_equity_busy :: json where
  "pages_equity_busy =
     JList [page_fj, page_of [liasse ''FJ'' [(''m3'', ''8'')], dl_line, JNull],
            page_null_liasses]"


text \<open>Pages whose list of lines ends with a \<^verbatim>\<open>null\<close>, after one line or none.\<close>

definition pages_null_line :: json where
  "pages_null_line = JList [page_of [JNull]]"

definition pages_sale_then_null :: json where
  "pages_sale_then_null = JList [page_of [liasse ''210'' [(''m1'', ''1000'')], JNull]]"

definition pages_loss_then_null :: json where
  "pages_loss_then_null = JList [page_of [liasse ''P8'' [(''m1'', ''-100'')], JNull]]"

definition pages_di_then_null :: json where
  "pages_di_then_null = JList [page_of [liasse ''DI'' [(''m1'', ''1200'')], JNull]]"

text \<open>A filing whose only page holds a \<^verbatim>\<open>null\<close> where a line is expected.\<close>

definition doc_null_line :: json where
  "doc_null_line = document_of [statement_of ''C'' (JList [page_of [JNull]])]"

text \<open>
  Two filings that report every metric, with different values; the bank lines P3 and P8
  are there for the summed equity.
\<close>

definition pages_first_filing :: json where
  "pages_first_filing =
     JList [page_of [liasse ''DL'' [(''m1'', ''1'')], liasse ''HN'' [(''m1'', ''2'')],
                     liasse ''FJ'' [(''m3'', ''3'')], liasse ''YP'' [(''m1'', ''4'')],
                     liasse ''R3'' [(''m1'', ''5'')], liasse ''P3'' [(''m1'', ''6'')],
                     liasse ''210'' [(''m1'', ''7'')]]]"

definition pages_last_filing :: json where
  "pages_last_filing =
     JList [page_of [liasse ''DL'' [(''m1'', ''50000'')], liasse ''HN'' [(''m1'', ''700'')],
                     liasse ''FJ'' [(''m3'', ''9000'')], liasse ''YP'' [(''m1'', ''12'')],
                     liasse ''R3'' [(''m1'', ''33'')], liasse ''P3'' [(''m1'', ''40'')],
                     liasse ''P8'' [(''m1'', ''2'')], liasse ''210'' [(''m1'', ''80'')]]]"

definition doc_two_filings :: json where
  "doc_two_filings =
     document_of [statement_of ''C'' pages_first_filing, statement_of ''C'' pages_last_filing]"

text \<open>Nine times the character U+00B2 (superscript two).\<close>

definition superscript_twos :: string where
  "superscript_twos = replicate 9 (CHR 0xB2)"

section \<open>Exceptions that leave the extractor\<close>

lemma parse_unsigned_error: "parse_unsigned s = Inl e \<Longrightarrow> e = ValueError"
  by (auto simp: parse_unsigned_def split: if_splits)

lemma py_int_of_str_error: "py_int_of_str s = Inl e \<Longrightarrow> e = ValueError"
  by (auto simp: py_int_of_str_def split: list.splits if_splits sum.splits
           dest: parse_unsigned_error)

lemma py_int_error: "py_int v = Inl e \<Longrightarrow> extract_caught e \<or> may_escape e"
  by (cases v rule: py_int.cases)
     (auto simp: extract_caught_def may_escape_def dest: py_int_of_str_error)

lemma getitem_str_error: "py_getitem_str v k = Inl e \<Longrightarrow> extract_caught e"
  by (cases v) (auto simp: extract_caught_def split: option.splits)

lemma read_cell_error: "read_cell fld l = Inl e \<Longrightarrow> extract_caught e \<or> may_escape e"
  by (auto simp: read_cell_def split: sum.splits dest: getitem_str_error py_int_error)

lemma py_get_error: "py_get v k d = Inl e \<Longrightarrow> may_escape e"
  by (cases v) (auto simp: may_escape_def)

lemma py_iter_error: "py_iter v = Inl e \<Longrightarrow> extract_caught e"
  by (cases v) (auto simp: extract_caught_def)

lemma next_in_liasses_error:
  "next_in_liasses fld cd items = Inl e \<Longrightarrow> extract_caught e \<or> may_escape e"
  by (induction items)
     (auto split: sum.splits if_splits dest: py_get_error read_cell_error)

lemma page_liasses_error: "page_liasses p = Inl e \<Longrightarrow> extract_caught e \<or> may_escape e"
  by (auto simp: page_liasses_def split: sum.splits dest: py_get_error py_iter_error)

lemma next_in_pages_error:
  "next_in_pages fld cd ps = Inl e \<Longrightarrow> extract_caught e \<or> may_escape e"
  by (induction ps)
     (auto simp: extract_caught_def split: sum.splits option.splits
           dest: page_liasses_error next_in_liasses_error)

text \<open>
  Whatever the pages are, the only exceptions that leave \<^verbatim>\<open>extract_from_pages\<close>, and
  so the two aggregations built on it, are AttributeError and OverflowError.
\<close>

lemma extract_from_pages_error:
  "extract_from_pages pages fld cd = Inl e \<Longrightarrow> may_escape e"
  by (auto simp: extract_from_pages_def split: sum.splits if_splits
           dest: next_in_pages_error py_iter_error)

lemma extract_with_fallback_error:
  "extract_with_fallback pages ms = Inl e \<Longrightarrow> may_escape e"
  by (induction ms) (auto split: sum.splits option.splits dest: extract_from_pages_error)

lemma sum_loop_error: "sum_loop pages ms acc = Inl e \<Longrightarrow> may_escape e"
  by (induction ms arbitrary: acc)
     (auto split: sum.splits option.splits dest: extract_from_pages_error)

lemma extract_sum_error: "extract_sum_from_components pages cs = Inl e \<Longrightarrow> may_escape e"
  by (auto simp: extract_sum_from_components_def split: sum.splits dest: sum_loop_error)

text \<open>Every exception of the navigation is one that the getters catch.\<close>

lemma getitem_str_caught: "py_getitem_str v k = Inl e \<Longrightarrow> getter_caught e"
  by (cases v) (auto simp: getter_caught_def split: option.splits)

lemma index_caught: "py_index xs i = Inl e \<Longrightarrow> getter_caught e"
  by (auto simp: py_index_def getter_caught_def split: if_splits)

lemma getitem_int_caught: "py_getitem_int v i = Inl e \<Longrightarrow> getter_caught e"
  by (cases v) (auto simp: getter_caught_def dest: index_caught split: sum.splits)

lemma navigate_caught: "navigate doc pos = Inl e \<Longrightarrow> getter_caught e"
  unfolding navigate_def
  by (auto split: sum.splits dest: getitem_str_caught getitem_int_caught)

lemma try_getter_error:
  "try_getter (case navigate doc pos of Inl e \<Rightarrow> Inl e | Inr pages \<Rightarrow> body pages) = Inl e \<Longrightarrow>
   \<exists>pages. navigate doc pos = Inr pages \<and> body pages = Inl e"
  by (cases "navigate doc pos")
     (auto simp: try_getter_def navigate_caught split: if_splits sum.splits)

lemma getters_error:
  "get_capitaux_propres doc pos bt n = Inl e \<Longrightarrow> may_escape e"
  "get_benefice_perte doc pos bt n = Inl e \<Longrightarrow> may_escape e"
  "get_resultat_exercice_tbb doc pos n = Inl e \<Longrightarrow> may_escape e"
  "get_chiffre_affaires doc pos bt n = Inl e \<Longrightarrow> may_escape e"
  "get_effectif doc pos bt n = Inl e \<Longrightarrow> may_escape e"
  unfolding get_capitaux_propres_def get_benefice_perte_def get_resultat_exercice_tbb_def
    get_chiffre_affaires_def get_effectif_def
  by (auto dest!: try_getter_error
           dest: extract_from_pages_error extract_with_fallback_error extract_sum_error
           split: option.splits entry.splits if_splits)

text \<open>The second way out: \<^verbatim>\<open>int()\<close> of an infinite float raises OverflowError.\<close>

lemma infinite_cell_raises:
  "extract_from_pages
     (JList [page_of [JDict [(''code'', JStr ''DL''), (''m1'', JFloat PosInf)]]])
     ''m1'' ''DL'' = Inl OverflowError"
  by code_simp

text \<open>
  Claim C1 says that no input makes the extraction operations raise. On a page whose
  list of lines holds a \<^verbatim>\<open>null\<close>, \<^verbatim>\<open>liasse.get("code")\<close> raises AttributeError,
  which neither \<^verbatim>\<open>extract_from_pages\<close> nor the getter catches.
\<close>

theorem null_line_raises:
  "extract_from_pages (JList [page_of [JNull]]) ''m1'' ''DL'' = Inl AttributeError \<and>
   get_capitaux_propres doc_null_line 0 TBC False = Inl AttributeError"
  by code_simp

section \<open>Summation of components\<close>

text \<open>
  When every lookup of a component set returns, \<^verbatim>\<open>extract_sum_from_components\<close>
  returns the total, absent components counting for zero, if the total is strictly
  positive, and \<^verbatim>\<open>None\<close> otherwise.
\<close>

lemma sum_loop_returns:
  "list_all (lookup_returns pages) ms \<Longrightarrow>
   sum_loop pages ms acc = Inr (acc + sum_list (map (contribution pages) ms))"
  by (induction ms arbitrary: acc)
     (auto simp: lookup_returns_def contribution_def split: sum.splits option.splits)

lemma extract_sum_eq:
  assumes "lookups_return pages components"
  shows "extract_sum_from_components pages components =
         Inr (if 0 < component_total pages components
              then Some (component_total pages components) else None)"
  using sum_loop_returns [of pages "map snd components" 0] assms
  by (simp add: extract_sum_from_components_def lookups_return_def component_total_def)

lemma absent_returns: "absent pages m \<Longrightarrow> lookup_returns pages m"
  by (simp add: absent_def lookup_returns_def)

lemma absent_contribution: "absent pages m \<Longrightarrow> contribution pages m = 0"
  by (simp add: absent_def contribution_def)

lemma all_absent_total: "all_absent pages components \<Longrightarrow> component_total pages components = 0"
  unfolding all_absent_def component_total_def
  by (induction components) (auto simp: absent_contribution)

lemma all_absent_return: "all_absent pages components \<Longrightarrow> lookups_return pages components"
  unfolding all_absent_def lookups_return_def
  by (induction components) (auto simp: absent_returns)

text \<open>A lookup that raises makes the sum raise, whatever the other components give.\<close>

lemma sum_loop_raises:
  "m \<in> set ms \<Longrightarrow> extract_from_pages pages (field m) (code m) = Inl e \<Longrightarrow>
   \<exists>e'. sum_loop pages ms acc = Inl e'"
  by (induction ms arbitrary: acc) (auto split: sum.splits option.splits)

text \<open>
  Claim C2 says that, on every pages list, \<^verbatim>\<open>extract_sum_from_components\<close> returns
  the total of the components that resolve when it is positive and \<^verbatim>\<open>None\<close> when
  it is zero. On a page whose only line is a \<^verbatim>\<open>null\<close> no turnover component resolves,
  and on a page with the line 210 before a \<^verbatim>\<open>null\<close> the component 210 resolves to
  1000; on both the sum raises AttributeError, where the claim has \<^verbatim>\<open>None\<close> and 1000.
\<close>

theorem sum_raises_on_null_line:
  "extract_sum_from_components pages_null_line CHIFFRE_AFFAIRES_TBS = Inl AttributeError \<and>
   extract_from_pages pages_sale_then_null ''m1'' ''210'' = Inr (Some 1000) \<and>
   extract_sum_from_components pages_sale_then_null CHIFFRE_AFFAIRES_TBS = Inl AttributeError"
  by code_simp

text \<open>
  Claim C9 says that a strictly negative total of the resolved components gives
  \<^verbatim>\<open>None\<close>. On a page with the bank line P8 of value -100 before a \<^verbatim>\<open>null\<close>, P8 is
  the one component that resolves, the total is -100, and the sum raises AttributeError.
\<close>

theorem negative_sum_raises_on_null_line:
  "extract_from_pages pages_loss_then_null ''m1'' ''P8'' = Inr (Some (- 100)) \<and>
   extract_sum_from_components pages_loss_then_null CAPITAUX_PROPRES_TBB = Inl AttributeError"
  by code_simp

section \<open>Fallback lists\<close>

text \<open>
  After mappings that are absent, the first mapping that resolves gives the result; the
  result is \<^verbatim>\<open>None\<close> exactly when every mapping is absent.
\<close>

lemma fallback_first:
  "list_all (absent pages) pre \<Longrightarrow>
   extract_from_pages pages (field a) (code a) = Inr (Some v) \<Longrightarrow>
   extract_with_fallback pages (pre @ a # post) = Inr (Some v)"
  by (induction pre) (auto simp: absent_def)

lemma fallback_none:
  "extract_with_fallback pages ms = Inr None \<longleftrightarrow> list_all (absent pages) ms"
  by (induction ms) (auto simp: absent_def split: sum.splits option.splits)

text \<open>
  Claim C3 says that, on every pages list, \<^verbatim>\<open>extract_with_fallback\<close> returns the
  result of the first mapping of the list that resolves. On a page with the line DI of
  value 1200 before a \<^verbatim>\<open>null\<close>, the mapping DI resolves to 1200 and the mapping HN
  before it does not resolve; the lookup of HN raises AttributeError, and so does
  \<^verbatim>\<open>extract_with_fallback\<close>, where the claim has 1200.
\<close>

theorem fallback_raises_on_null_line:
  "extract_from_pages pages_di_then_null ''m1'' ''DI'' = Inr (Some 1200) \<and>
   extract_from_pages pages_di_then_null ''m1'' ''HN'' = Inl AttributeError \<and>
   extract_with_fallback pages_di_then_null [mk ''m1'' ''HN'', mk ''m1'' ''DI''] =
     Inl AttributeError"
  by code_simp

section \<open>Absent results of the getters\<close>

lemma navigate_lacks: "lacks_bilansSaisis doc \<Longrightarrow> \<exists>e. navigate doc pos = Inl e"
  by (cases doc) (auto simp: navigate_def)

lemma navigate_out_of_bounds:
  "position_out_of_bounds doc pos \<Longrightarrow> \<exists>e. navigate doc pos = Inl e"
  by (cases doc) (auto simp: navigate_def py_index_def split: option.splits json.splits)

lemma getters_navigate_fails:
  assumes "navigate doc pos = Inl e"
  shows "get_capitaux_propres doc pos bt n = Inr None"
    and "get_benefice_perte doc pos bt n = Inr None"
    and "get_resultat_exercice_tbb doc pos n = Inr None"
    and "get_chiffre_affaires doc pos bt n = Inr None"
    and "get_effectif doc pos bt n = Inr None"
  using assms navigate_caught [OF assms]
  by (simp_all add: get_capitaux_propres_def get_benefice_perte_def
        get_resultat_exercice_tbb_def get_chiffre_affaires_def get_effectif_def try_getter_def)

lemma effectif_no_entry:
  "map_of (if n then EFFECTIF_N_1 else EFFECTIF) bt = None \<Longrightarrow>
   get_effectif doc pos bt n = Inr None"
  by (cases n; cases "navigate doc pos")
     (simp_all add: get_effectif_def try_getter_def navigate_caught)

lemma capitaux_no_entry:
  "bt \<noteq> TBB \<Longrightarrow> map_of (if n then CAPITAUX_PROPRES_N_1 else CAPITAUX_PROPRES) bt = None \<Longrightarrow>
   get_capitaux_propres doc pos bt n = Inr None"
  by (cases n; cases "navigate doc pos")
     (simp_all add: get_capitaux_propres_def try_getter_def navigate_caught)

lemma benefice_no_entry:
  "map_of (if n then BENEFICE_PERTE_N_1 else BENEFICE_PERTE) bt = None \<Longrightarrow>
   get_benefice_perte doc pos bt n = Inr None"
  by (cases n; cases "navigate doc pos")
     (simp_all add: get_benefice_perte_def try_getter_def navigate_caught)

lemma chiffre_no_entry:
  "bt \<noteq> TBS \<Longrightarrow> map_of (if n then CHIFFRE_AFFAIRES_N_1 else CHIFFRE_AFFAIRES) bt = None \<Longrightarrow>
   get_chiffre_affaires doc pos bt n = Inr None"
  by (cases n; cases "navigate doc pos")
     (simp_all add: get_chiffre_affaires_def try_getter_def navigate_caught)

text \<open>
  Claim C6. A getter returns \<^verbatim>\<open>None\<close>, and raises nothing, when its table has no
  entry for the bilan type (the types B and S of the two summed metrics have their own
  component sets), when the document has no \<^verbatim>\<open>bilansSaisis\<close> key, and when the
  position is outside the \<^verbatim>\<open>bilansSaisis\<close> array.
\<close>

theorem absent_without_raising:
  "(map_of (if n then EFFECTIF_N_1 else EFFECTIF) bt = None \<longrightarrow>
      get_effectif doc pos bt n = Inr None) \<and>
   (bt \<noteq> TBB \<and> map_of (if n then CAPITAUX_PROPRES_N_1 else CAPITAUX_PROPRES) bt = None \<longrightarrow>
      get_capitaux_propres doc pos bt n = Inr None) \<and>
   (map_of (if n then BENEFICE_PERTE_N_1 else BENEFICE_PERTE) bt = None \<longrightarrow>
      get_benefice_perte doc pos bt n = Inr None) \<and>
   (bt \<noteq> TBS \<and> map_of (if n then CHIFFRE_AFFAIRES_N_1 else CHIFFRE_AFFAIRES) bt = None \<longrightarrow>
      get_chiffre_affaires doc pos bt n = Inr None) \<and>
   (lacks_bilansSaisis doc \<or> position_out_of_bounds doc pos \<longrightarrow>
      get_capitaux_propres doc pos bt n = Inr None \<and>
      get_benefice_perte doc pos bt n = Inr None \<and>
      get_resultat_exercice_tbb doc pos n = Inr None \<and>
      get_chiffre_affaires doc pos bt n = Inr None \<and>
      get_effectif doc pos bt n = Inr None)"
proof -
  have "get_capitaux_propres doc pos bt n = Inr None \<and>
        get_benefice_perte doc pos bt n = Inr None \<and>
        get_resultat_exercice_tbb doc pos n = Inr None \<and>
        get_chiffre_affaires doc pos bt n = Inr None \<and>
        get_effectif doc pos bt n = Inr None"
    if "lacks_bilansSaisis doc \<or> position_out_of_bounds doc pos"
  proof -
    from that obtain e where "navigate doc pos = Inl e"
      using navigate_lacks navigate_out_of_bounds by blast
    then show ?thesis by (simp add: getters_navigate_fails)
  qed
  then show ?thesis
    using effectif_no_entry [of n bt doc pos] capitaux_no_entry [of bt n doc pos]
      benefice_no_entry [of n bt doc pos] chiffre_no_entry [of bt n doc pos]
    by blast
qed

theorem absent_without_raising_witness:
  "map_of EFFECTIF TBK = None \<and> get_effectif doc_equity 0 TBK False = Inr None \<and>
   TBAC \<noteq> TBB \<and> map_of CAPITAUX_PROPRES_N_1 TBAC = None \<and>
   get_capitaux_propres doc_equity 0 TBAC True = Inr None \<and>
   map_of BENEFICE_PERTE TBB = None \<and> get_benefice_perte doc_equity 0 TBB False = Inr None \<and>
   TBAS \<noteq> TBS \<and> map_of CHIFFRE_AFFAIRES TBAS = None \<and>
   get_chiffre_affaires doc_equity 0 TBAS False = Inr None \<and>
   lacks_bilansSaisis (JDict []) \<and> get_capitaux_propres (JDict []) 0 TBC False = Inr None \<and>
   position_out_of_bounds doc_equity 1 \<and> get_capitaux_propres doc_equity 1 TBC False = Inr None"
proof -
  have e: "map_of EFFECTIF TBK = None" by code_simp
  have c: "map_of CAPITAUX_PROPRES_N_1 TBAC = None" by code_simp
  have b: "map_of BENEFICE_PERTE TBB = None" by code_simp
  have t: "map_of CHIFFRE_AFFAIRES TBAS = None" by code_simp
  have l: "lacks_bilansSaisis (JDict [])" by simp
  have p: "position_out_of_bounds doc_equity 1" by code_simp
  show ?thesis
    using absent_without_raising [of False TBK doc_equity 0]
      absent_without_raising [of True TBAC doc_equity 0]
      absent_without_raising [of False TBB doc_equity 0]
      absent_without_raising [of False TBAS doc_equity 0]
      absent_without_raising [of False TBC "JDict []" 0]
      absent_without_raising [of False TBC doc_equity 1]
      e c b t l p
    by simp
qed

section \<open>Negative positions\<close>

lemma index_minus_one: "xs \<noteq> [] \<Longrightarrow> py_index xs (- 1) = py_index xs (int (length xs) - 1)"
  by (cases xs) (auto simp: py_index_def)

lemma index_minus_one_last: "xs \<noteq> [] \<Longrightarrow> py_index xs (- 1) = Inr (last xs)"
  by (cases xs rule: rev_cases) (auto simp: py_index_def nth_append)

lemma navigate_statement:
  "navigate doc pos =
     (case py_getitem_str doc ''bilansSaisis'' of
        Inl e \<Rightarrow> Inl e
      | Inr a \<Rightarrow> (case py_getitem_int a pos of Inl e \<Rightarrow> Inl e | Inr b \<Rightarrow> statement_pages b))"
  by (simp add: navigate_def statement_pages_def split: sum.splits)

lemma index_last: "xs \<noteq> [] \<Longrightarrow> py_index xs (int (length xs) - 1) = Inr (last xs)"
  using index_minus_one [of xs] index_minus_one_last [of xs] by simp

lemma navigate_last:
  assumes "py_getitem_str doc ''bilansSaisis'' = Inr (JList bs)" and "bs \<noteq> []"
  shows "navigate doc (- 1) = statement_pages (last bs)"
    and "navigate doc (int (length bs) - 1) = statement_pages (last bs)"
  using assms(1) index_last [OF assms(2)] index_minus_one_last [OF assms(2)]
  by (simp_all add: navigate_statement)

text \<open>The handler of a getter leaves a result of the extraction as it is.\<close>

lemma try_getter_extract:
  "try_getter (extract_from_pages pages fld cd) = extract_from_pages pages fld cd"
  "try_getter (extract_with_fallback pages ms) = extract_with_fallback pages ms"
  "try_getter (extract_sum_from_components pages cs) = extract_sum_from_components pages cs"
  using extract_from_pages_error [of pages fld cd] extract_with_fallback_error [of pages ms]
    extract_sum_error [of pages cs]
  by (auto simp: try_getter_def may_escape_def getter_caught_def split: sum.splits)

lemma try_getter_none: "try_getter (Inr None) = Inr None"
  by (simp add: try_getter_def)

text \<open>What each getter returns once the navigation has given the pages.\<close>

lemma getters_on_pages:
  assumes "navigate doc pos = Inr pages"
  shows "get_capitaux_propres doc pos bt n =
           (if bt = TBB then
              extract_sum_from_components pages
                (if n then CAPITAUX_PROPRES_N_1_TBB else CAPITAUX_PROPRES_TBB)
            else
              (case map_of (if n then CAPITAUX_PROPRES_N_1 else CAPITAUX_PROPRES) bt of
                 Some m \<Rightarrow> extract_from_pages pages (field m) (code m)
               | None \<Rightarrow> Inr None))"
    and "get_benefice_perte doc pos bt n =
           (case map_of (if n then BENEFICE_PERTE_N_1 else BENEFICE_PERTE) bt of
              Some (Fallback ms) \<Rightarrow> extract_with_fallback pages ms
            | Some (Single m) \<Rightarrow> extract_from_pages pages (field m) (code m)
            | None \<Rightarrow> Inr None)"
    and "get_resultat_exercice_tbb doc pos n =
           extract_with_fallback pages
             (if n then RESULTAT_EXERCICE_N_1_TBB else RESULTAT_EXERCICE_TBB)"
    and "get_chiffre_affaires doc pos bt n =
           (if bt = TBS then
              extract_sum_from_components pages
                (if n then CHIFFRE_AFFAIRES_N_1_TBS else CHIFFRE_AFFAIRES_TBS)
            else
              (case map_of (if n then CHIFFRE_AFFAIRES_N_1 else CHIFFRE_AFFAIRES) bt of
                 Some m \<Rightarrow> extract_from_pages pages (field m) (code m)
               | None \<Rightarrow> Inr None))"
    and "get_effectif doc pos bt n =
           (case map_of (if n then EFFECTIF_N_1 else EFFECTIF) bt of
              Some m \<Rightarrow> extract_from_pages pages (field m) (code m)
            | None \<Rightarrow> Inr None)"
  using assms
  by (simp_all add: get_capitaux_propres_def get_benefice_perte_def
        get_resultat_exercice_tbb_def get_chiffre_affaires_def get_effectif_def
        try_getter_extract try_getter_none split: option.splits entry.splits)

lemma getters_same_navigation:
  assumes "navigate doc i = navigate doc j"
  shows "get_capitaux_propres doc i bt n = get_capitaux_propres doc j bt n"
    and "get_benefice_perte doc i bt n = get_benefice_perte doc j bt n"
    and "get_resultat_exercice_tbb doc i n = get_resultat_exercice_tbb doc j n"
    and "get_chiffre_affaires doc i bt n = get_chiffre_affaires doc j bt n"
    and "get_effectif doc i bt n = get_effectif doc j bt n"
  using assms
  by (simp_all add: get_capitaux_propres_def get_benefice_perte_def
        get_resultat_exercice_tbb_def get_chiffre_affaires_def get_effectif_def)

text \<open>
  Claim C10. When \<^verbatim>\<open>bilan_data["bilansSaisis"]\<close> is a non-empty list, the position -1
  is not out of range: it reads the last statement of the list, and every getter returns
  at -1 what it returns at the last non-negative position. When the last statement has
  pages, each getter called with -1 returns what its extraction gives on those pages.
\<close>

theorem minus_one_reads_last:
  assumes "py_getitem_str doc ''bilansSaisis'' = Inr (JList bs)" and "bs \<noteq> []"
  shows "py_getitem_int (JList bs) (- 1) = Inr (last bs) \<and>
         navigate doc (- 1) = statement_pages (last bs) \<and>
         get_capitaux_propres doc (- 1) bt n =
           get_capitaux_propres doc (int (length bs) - 1) bt n \<and>
         get_benefice_perte doc (- 1) bt n =
           get_benefice_perte doc (int (length bs) - 1) bt n \<and>
         get_resultat_exercice_tbb doc (- 1) n =
           get_resultat_exercice_tbb doc (int (length bs) - 1) n \<and>
         get_chiffre_affaires doc (- 1) bt n =
           get_chiffre_affaires doc (int (length bs) - 1) bt n \<and>
         get_effectif doc (- 1) bt n = get_effectif doc (int (length bs) - 1) bt n \<and>
         (statement_pages (last bs) = Inr pages \<longrightarrow>
            get_capitaux_propres doc (- 1) bt n =
              (if bt = TBB then
                 extract_sum_from_components pages
                   (if n then CAPITAUX_PROPRES_N_1_TBB else CAPITAUX_PROPRES_TBB)
               else
                 (case map_of (if n then CAPITAUX_PROPRES_N_1 else CAPITAUX_PROPRES) bt of
                    Some m \<Rightarrow> extract_from_pages pages (field m) (code m)
                  | None \<Rightarrow> Inr None)) \<and>
            get_benefice_perte doc (- 1) bt n =
              (case map_of (if n then BENEFICE_PERTE_N_1 else BENEFICE_PERTE) bt of
                 Some (Fallback ms) \<Rightarrow> extract_with_fallback pages ms
               | Some (Single m) \<Rightarrow> extract_from_pages pages (field m) (code m)
               | None \<Rightarrow> Inr None) \<and>
            get_resultat_exercice_tbb doc (- 1) n =
              extract_with_fallback pages
                (if n then RESULTAT_EXERCICE_N_1_TBB else RESULTAT_EXERCICE_TBB) \<and>
            get_chiffre_affaires doc (- 1) bt n =
              (if bt = TBS then
                 extract_sum_from_components pages
                   (if n then CHIFFRE_AFFAIRES_N_1_TBS else CHIFFRE_AFFAIRES_TBS)
               else
                 (case map_of (if n then CHIFFRE_AFFAIRES_N_1 else CHIFFRE_AFFAIRES) bt of
                    Some m \<Rightarrow> extract_from_pages pages (field m) (code m)
                  | None \<Rightarrow> Inr None)) \<and>
            get_effectif doc (- 1) bt n =
              (case map_of (if n then EFFECTIF_N_1 else EFFECTIF) bt of
                 Some m \<Rightarrow> extract_from_pages pages (field m) (code m)
               | None \<Rightarrow> Inr None))"
proof -
  have i: "py_getitem_int (JList bs) (- 1) = Inr (last bs)"
    using index_minus_one_last [OF assms(2)] by simp
  have a: "navigate doc (- 1) = statement_pages (last bs)"
    using navigate_last(1) [OF assms] .
  have e: "navigate doc (- 1) = navigate doc (int (length bs) - 1)"
    using navigate_last [OF assms] by simp
  have anchored: "get_capitaux_propres doc (- 1) bt n =
              (if bt = TBB then
                 extract_sum_from_components pages
                   (if n then CAPITAUX_PROPRES_N_1_TBB else CAPITAUX_PROPRES_TBB)
               else
                 (case map_of (if n then CAPITAUX_PROPRES_N_1 else CAPITAUX_PROPRES) bt of
                    Some m \<Rightarrow> extract_from_pages pages (field m) (code m)
                  | None \<Rightarrow> Inr None)) \<and>
            get_benefice_perte doc (- 1) bt n =
              (case map_of (if n then BENEFICE_PERTE_N_1 else BENEFICE_PERTE) bt of
                 Some (Fallback ms) \<Rightarrow> extract_with_fallback pages ms
               | Some (Single m) \<Rightarrow> extract_from_pages pages (field m) (code m)
               | None \<Rightarrow> Inr None) \<and>
            get_resultat_exercice_tbb doc (- 1) n =
              extract_with_fallback pages
                (if n then RESULTAT_EXERCICE_N_1_TBB else RESULTAT_EXERCICE_TBB) \<and>
            get_chiffre_affaires doc (- 1) bt n =
              (if bt = TBS then
                 extract_sum_from_components pages
                   (if n then CHIFFRE_AFFAIRES_N_1_TBS else CHIFFRE_AFFAIRES_TBS)
               else
                 (case map_of (if n then CHIFFRE_AFFAIRES_N_1 else CHIFFRE_AFFAIRES) bt of
                    Some m \<Rightarrow> extract_from_pages pages (field m) (code m)
                  | None \<Rightarrow> Inr None)) \<and>
            get_effectif doc (- 1) bt n =
              (case map_of (if n then EFFECTIF_N_1 else EFFECTIF) bt of
                 Some m \<Rightarrow> extract_from_pages pages (field m) (code m)
               | None \<Rightarrow> Inr None)"
    if "statement_pages (last bs) = Inr pages"
  proof -
    from that a have "navigate doc (- 1) = Inr pages" by simp
    then show ?thesis by (simp only: getters_on_pages simp_thms)
  qed
  from i a getters_same_navigation [OF e] anchored show ?thesis by blast
qed

theorem minus_one_reads_last_witness:
  "py_getitem_str doc_two_filings ''bilansSaisis'' =
     Inr (JList [statement_of ''C'' pages_first_filing, statement_of ''C'' pages_last_filing]) \<and>
   [statement_of ''C'' pages_first_filing, statement_of ''C'' pages_last_filing] \<noteq> [] \<and>
   statement_pages (last [statement_of ''C'' pages_first_filing,
                          statement_of ''C'' pages_last_filing]) = Inr pages_last_filing \<and>
   get_capitaux_propres doc_two_filings (- 1) TBC False = Inr (Some 50000) \<and>
   get_capitaux_propres doc_two_filings (- 1) TBB False = Inr (Some 42) \<and>
   get_benefice_perte doc_two_filings (- 1) TBC False = Inr (Some 700) \<and>
   get_resultat_exercice_tbb doc_two_filings (- 1) False = Inr (Some 33) \<and>
   get_chiffre_affaires doc_two_filings (- 1) TBC False = Inr (Some 9000) \<and>
   get_chiffre_affaires doc_two_filings (- 1) TBS False = Inr (Some 80) \<and>
   get_effectif doc_two_filings (- 1) TBC False = Inr (Some 12) \<and>
   get_capitaux_propres doc_two_filings 0 TBC False = Inr (Some 1) \<and>
   get_effectif doc_two_filings 0 TBC False = Inr (Some 4)"
proof -
  let ?bs = "[statement_of ''C'' pages_first_filing, statement_of ''C'' pages_last_filing]"
  have d: "py_getitem_str doc_two_filings ''bilansSaisis'' = Inr (JList ?bs)"
    by (simp add: doc_two_filings_def document_of_def)
  have ne: "?bs \<noteq> []" by simp
  have p: "statement_pages (last ?bs) = Inr pages_last_filing"
    by (simp add: statement_pages_def statement_of_def)
  have v: "extract_from_pages pages_last_filing ''m1'' ''DL'' = Inr (Some 50000)"
    "extract_sum_from_components pages_last_filing CAPITAUX_PROPRES_TBB = Inr (Some 42)"
    "extract_with_fallback pages_last_filing [mk ''m1'' ''HN'', mk ''m1'' ''DI''] = Inr (Some 700)"
    "extract_with_fallback pages_last_filing RESULTAT_EXERCICE_TBB = Inr (Some 33)"
    "extract_from_pages pages_last_filing ''m3'' ''FJ'' = Inr (Some 9000)"
    "extract_sum_from_components pages_last_filing CHIFFRE_AFFAIRES_TBS = Inr (Some 80)"
    "extract_from_pages pages_last_filing ''m1'' ''YP'' = Inr (Some 12)"
    by code_simp+
  have f: "get_capitaux_propres doc_two_filings 0 TBC False = Inr (Some 1)"
    "get_effectif doc_two_filings 0 TBC False = Inr (Some 4)"
    by code_simp+
  note c = minus_one_reads_last [OF d ne, of TBC False pages_last_filing,
      THEN conjunct2, THEN conjunct2, THEN conjunct2, THEN conjunct2,
      THEN conjunct2, THEN conjunct2, THEN conjunct2, rule_format, OF p]
  note b = minus_one_reads_last [OF d ne, of TBB False pages_last_filing,
      THEN conjunct2, THEN conjunct2, THEN conjunct2, THEN conjunct2,
      THEN conjunct2, THEN conjunct2, THEN conjunct2, rule_format, OF p]
  note t = minus_one_reads_last [OF d ne, of TBS False pages_last_filing,
      THEN conjunct2, THEN conjunct2, THEN conjunct2, THEN conjunct2,
      THEN conjunct2, THEN conjunct2, THEN conjunct2, rule_format, OF p]
  have 1: "get_capitaux_propres doc_two_filings (- 1) TBC False = Inr (Some 50000)"
    using c v(1) by (simp add: CAPITAUX_PROPRES_def mk_def)
  have 2: "get_capitaux_propres doc_two_filings (- 1) TBB False = Inr (Some 42)"
    using b v(2) by simp
  have 3: "get_benefice_perte doc_two_filings (- 1) TBC False = Inr (Some 700)"
    using c v(3) by (simp add: BENEFICE_PERTE_def del: extract_with_fallback.simps)
  have 4: "get_resultat_exercice_tbb doc_two_filings (- 1) False = Inr (Some 33)"
    using c v(4) by simp
  have 5: "get_chiffre_affaires doc_two_filings (- 1) TBC False = Inr (Some 9000)"
    using c v(5) by (simp add: CHIFFRE_AFFAIRES_def mk_def)
  have 6: "get_chiffre_affaires doc_two_filings (- 1) TBS False = Inr (Some 80)"
    using t v(6) by simp
  have 7: "get_effectif doc_two_filings (- 1) TBC False = Inr (Some 12)"
    using c v(7) by (simp add: EFFECTIF_def mk_def)
  from d p 1 2 3 4 5 6 7 f show ?thesis by simp
qed

section \<open>The first line that carries a code\<close>

lemma plain_get: "plain cd x \<Longrightarrow> \<exists>c. py_get x ''code'' JNull = Inr c \<and> c \<noteq> JStr cd"
  by (cases x) (auto simp: plain_def has_code_def)

lemma next_in_liasses_plain:
  "list_all (plain cd) items \<Longrightarrow> next_in_liasses fld cd items = Inr None"
proof (induction items)
  case Nil
  show ?case by simp
next
  case (Cons x items)
  then obtain c where "py_get x ''code'' JNull = Inr c" and "c \<noteq> JStr cd"
    using plain_get [of cd x] by auto
  with Cons show ?case by simp
qed

lemma next_in_liasses_hit:
  "line_hit cd items l \<Longrightarrow>
   next_in_liasses fld cd items =
     (case read_cell fld l of Inl e \<Rightarrow> Inl e | Inr n \<Rightarrow> Inr (Some n))"
proof (induction items)
  case Nil
  then show ?case by simp
next
  case (Cons x items)
  show ?case
  proof (cases "has_code cd x")
    case True
    with Cons.prems show ?thesis by (simp add: has_code_def)
  next
    case False
    with Cons.prems have "plain cd x" and "line_hit cd items l"
      by (simp_all add: plain_def)
    then obtain c where "py_get x ''code'' JNull = Inr c" and "c \<noteq> JStr cd"
      using plain_get [of cd x] by auto
    with Cons.IH \<open>line_hit cd items l\<close> show ?thesis by simp
  qed
qed

text \<open>The scan of the generator ends on the line that \<open>hit\<close> describes.\<close>

lemma next_in_pages_hit: "hit cd ps l \<Longrightarrow> next_in_pages fld cd ps = read_cell fld l"
proof (induction ps)
  case Nil
  then show ?case by simp
next
  case (Cons p ps)
  from Cons.prems obtain items where items: "page_liasses p = Inr items"
    and alt: "line_hit cd items l \<or> (list_all (plain cd) items \<and> hit cd ps l)"
    by (auto split: sum.splits)
  from alt show ?case
  proof
    assume "line_hit cd items l"
    then show ?thesis
      using items next_in_liasses_hit [of cd items l fld] by (simp split: sum.splits)
  next
    assume "list_all (plain cd) items \<and> hit cd ps l"
    then show ?thesis
      using items next_in_liasses_plain [of cd items fld] Cons.IH by simp
  qed
qed

lemma extract_hit:
  "hit cd ps l \<Longrightarrow>
   extract_from_pages (JList ps) fld cd =
     (case read_cell fld l of
        Inr n \<Rightarrow> Inr (Some n)
      | Inl e \<Rightarrow> if extract_caught e then Inr None else Inl e)"
  using next_in_pages_hit [of cd ps l fld] by (simp add: extract_from_pages_def)

lemma extract_hit_value:
  "hit cd ps l \<Longrightarrow> py_getitem_str l fld = Inr v \<Longrightarrow> py_int v = Inr n \<Longrightarrow>
   extract_from_pages (JList ps) fld cd = Inr (Some n)"
  using extract_hit [of cd ps l fld] by (simp add: read_cell_def)

lemma scenario_cells:
  "py_int (JStr ''50000'') = Inr 50000"
  "py_int (JStr ''48000'') = Inr 48000"
  "py_int (JStr ''1000'') = Inr 1000"
  "py_int (JStr ''2000'') = Inr 2000"
  "py_int (JStr ''0'') = Inr 0"
  by code_simp+

lemma try_getter_value: "try_getter (Inr r) = Inr r"
  by (simp add: try_getter_def)

section \<open>End-to-end scenarios\<close>

text \<open>
  Claim C4 as stated: on a document whose statement at the given position has pages that
  contain the line \<^verbatim>\<open>{code: "DL", m1: "50000", m2: "48000"}\<close>, equity is 50000 for
  the current year and 48000 for the previous year. It fails when another line DL comes
  first: the pages below contain the line, and the getter returns the cells of the line
  before it.
\<close>

theorem earlier_equity_line_wins:
  "navigate doc_equity_shadowed 0 =
     Inr (JList [page_of [liasse ''DL'' [(''m1'', ''1''), (''m2'', ''2'')],
                          liasse ''DL'' [(''m1'', ''50000''), (''m2'', ''48000'')]]]) \<and>
   get_capitaux_propres doc_equity_shadowed 0 TBC False = Inr (Some 1) \<and>
   get_capitaux_propres doc_equity_shadowed 0 TBC True = Inr (Some 2)"
  by code_simp

text \<open>
  Claim C4, amended. When the pages of the statement at the given position are a list on
  which the first line that carries the code DL, every line before it on its page being
  an object and every page before its page being passed over, has m1 "50000" and m2
  "48000", \<^verbatim>\<open>get_capitaux_propres\<close> for the type C returns 50000 for the current year
  and 48000 for the previous year.
\<close>

theorem equity_first_line:
  assumes "navigate doc pos = Inr (JList ps)"
    and "hit ''DL'' ps l"
    and "py_getitem_str l ''m1'' = Inr (JStr ''50000'')"
    and "py_getitem_str l ''m2'' = Inr (JStr ''48000'')"
  shows "get_capitaux_propres doc pos TBC False = Inr (Some 50000) \<and>
         get_capitaux_propres doc pos TBC True = Inr (Some 48000)"
proof -
  have "extract_from_pages (JList ps) ''m1'' ''DL'' = Inr (Some 50000)"
    using assms(2,3) scenario_cells(1) by (rule extract_hit_value)
  moreover have "extract_from_pages (JList ps) ''m2'' ''DL'' = Inr (Some 48000)"
    using assms(2,4) scenario_cells(2) by (rule extract_hit_value)
  ultimately show ?thesis
    using assms(1)
    by (simp add: get_capitaux_propres_def try_getter_def CAPITAUX_PROPRES_def
          CAPITAUX_PROPRES_N_1_def mk_def)
qed

theorem equity_first_line_witness:
  "navigate doc_equity 0 = Inr (JList [page_of [dl_line]]) \<and>
   hit ''DL'' [page_of [dl_line]] dl_line \<and>
   py_getitem_str dl_line ''m1'' = Inr (JStr ''50000'') \<and>
   py_getitem_str dl_line ''m2'' = Inr (JStr ''48000'') \<and>
   get_capitaux_propres doc_equity 0 TBC False = Inr (Some 50000) \<and>
   get_capitaux_propres doc_equity 0 TBC True = Inr (Some 48000) \<and>
   navigate (document_of [statement_of ''C'' pages_first_filing,
                          statement_of ''C'' pages_equity_busy]) 1 =
     Inr (JList [page_fj, page_of [liasse ''FJ'' [(''m3'', ''8'')], dl_line, JNull],
                 page_null_liasses]) \<and>
   hit ''DL'' [page_fj, page_of [liasse ''FJ'' [(''m3'', ''8'')], dl_line, JNull],
              page_null_liasses] dl_line \<and>
   get_capitaux_propres (document_of [statement_of ''C'' pages_first_filing,
                                      statement_of ''C'' pages_equity_busy]) 1 TBC False =
     Inr (Some 50000)"
proof -
  have n1: "navigate doc_equity 0 = Inr (JList [page_of [dl_line]])" by code_simp
  have h1: "hit ''DL'' [page_of [dl_line]] dl_line" by code_simp
  have a: "py_getitem_str dl_line ''m1'' = Inr (JStr ''50000'')" by code_simp
  have b: "py_getitem_str dl_line ''m2'' = Inr (JStr ''48000'')" by code_simp
  have n2: "navigate (document_of [statement_of ''C'' pages_first_filing,
                          statement_of ''C'' pages_equity_busy]) 1 =
     Inr (JList [page_fj, page_of [liasse ''FJ'' [(''m3'', ''8'')], dl_line, JNull],
                 page_null_liasses])" by code_simp
  have h2: "hit ''DL'' [page_fj, page_of [liasse ''FJ'' [(''m3'', ''8'')], dl_line, JNull],
              page_null_liasses] dl_line" by code_simp
  show ?thesis
    using equity_first_line [OF n1 h1 a b] equity_first_line [OF n2 h2 a b] n1 h1 a b n2 h2
    by simp
qed




section \<open>Order of the pages\<close>

lemma hit_first_page: "hit cd [p] l \<Longrightarrow> hit cd (p # rest) l"
  by (auto split: sum.splits)

lemma hit_after_passed:
  "list_all (passed_over cd) before \<Longrightarrow> hit cd (p # rest) l \<Longrightarrow> hit cd (before @ p # rest) l"
  by (induction before) (auto simp: passed_over_def split: sum.splits)

lemma perm_around:
  assumes "mset qs = mset (before @ p # after)"
  shows "\<exists>b a. qs = b @ p # a \<and> set (b @ a) = set (before @ after)"
proof -
  have "p \<in> set qs"
    using assms by (metis in_set_conv_decomp mset_eq_setD)
  then obtain b a where qs: "qs = b @ p # a"
    by (auto simp: in_set_conv_decomp)
  with assms have "mset (b @ a) = mset (before @ after)" by simp
  then have "set (b @ a) = set (before @ after)" by (rule mset_eq_setD)
  with qs show ?thesis by blast
qed

lemma hit_any_order:
  assumes "list_all (passed_over cd) (before @ after)"
    and "hit cd [p] l"
    and "mset qs = mset (before @ p # after)"
  shows "hit cd qs l"
proof -
  from perm_around [OF assms(3)] obtain b a
    where qs: "qs = b @ p # a" and same: "set (b @ a) = set (before @ after)"
    by blast
  from assms(1) same have "list_all (passed_over cd) (b @ a)"
    by (simp only: list_all_iff)
  then have "list_all (passed_over cd) b" by simp
  moreover have "hit cd (p # a) l" using assms(2) by (rule hit_first_page)
  ultimately show ?thesis unfolding qs by (rule hit_after_passed)
qed

text \<open>
  Claim C7 as stated: when exactly one page holds a line with the code, every ordering
  of the pages gives the same result. It fails on two pages, the second of which has
  \<^verbatim>\<open>null\<close> for its \<^verbatim>\<open>liasses\<close>: in the given order the line is found and 5 is
  returned; in the other order iterating \<^verbatim>\<open>null\<close> raises TypeError, which the handler
  turns into \<^verbatim>\<open>None\<close> before the page with the line is reached.
\<close>

theorem page_order_matters:
  "filter (page_has_code ''DL'') [page_dl, page_null_liasses] = [page_dl] \<and>
   mset [page_null_liasses, page_dl] = mset [page_dl, page_null_liasses] \<and>
   extract_from_pages (JList [page_dl, page_null_liasses]) ''m1'' ''DL'' = Inr (Some 5) \<and>
   extract_from_pages (JList [page_null_liasses, page_dl]) ''m1'' ''DL'' = Inr None"
proof -
  have "filter (page_has_code ''DL'') [page_dl, page_null_liasses] = [page_dl]"
    by code_simp
  moreover have "extract_from_pages (JList [page_dl, page_null_liasses]) ''m1'' ''DL''
                 = Inr (Some 5)"
    by code_simp
  moreover have "extract_from_pages (JList [page_null_liasses, page_dl]) ''m1'' ''DL''
                 = Inr None"
    by code_simp
  ultimately show ?thesis by simp
qed

text \<open>
  Claim C7, amended. Take a pages list in which one page holds a line with the code, the
  lines before the first such line on that page being objects, and in which every other
  page is passed over: its \<^verbatim>\<open>liasses\<close> value can be iterated and gives only objects
  that do not carry the code. On every ordering of the pages, \<^verbatim>\<open>extract_from_pages\<close>
  returns \<open>n\<close> when \<^verbatim>\<open>int(liasse[field])\<close> of that line is \<open>n\<close>, and \<^verbatim>\<open>None\<close> when
  \<^verbatim>\<open>int(liasse[field])\<close> raises an exception that the handler names (KeyError,
  TypeError, ValueError: the cell is missing or cannot be parsed).
\<close>

theorem unique_code_any_order:
  assumes "list_all (passed_over cd) (before @ after)"
    and "hit cd [p] l"
    and "mset qs = mset (before @ p # after)"
  shows "(read_cell fld l = Inr n \<longrightarrow>
            extract_from_pages (JList qs) fld cd = Inr (Some n)) \<and>
         (read_cell fld l = Inl e \<and> extract_caught e \<longrightarrow>
            extract_from_pages (JList qs) fld cd = Inr None)"
  using extract_hit [OF hit_any_order [OF assms], of fld] by simp

theorem unique_code_any_order_witness:
  "list_all (passed_over ''DL'') ([page_fj] @ [page_of []]) \<and>
   hit ''DL'' [page_dl] (liasse ''DL'' [(''m1'', ''5'')]) \<and>
   mset [page_dl, page_of [], page_fj] = mset ([page_fj] @ page_dl # [page_of []]) \<and>
   read_cell ''m1'' (liasse ''DL'' [(''m1'', ''5'')]) = Inr 5 \<and>
   extract_from_pages (JList [page_dl, page_of [], page_fj]) ''m1'' ''DL'' = Inr (Some 5) \<and>
   extract_from_pages (JList ([page_fj] @ page_dl # [page_of []])) ''m1'' ''DL'' =
     Inr (Some 5) \<and>
   read_cell ''m2'' (liasse ''DL'' [(''m1'', ''5'')]) = Inl KeyError \<and>
   extract_caught KeyError \<and>
   extract_from_pages (JList [page_dl, page_of [], page_fj]) ''m2'' ''DL'' = Inr None"
proof -
  have o: "list_all (passed_over ''DL'') ([page_fj] @ [page_of []])" by code_simp
  have h: "hit ''DL'' [page_dl] (liasse ''DL'' [(''m1'', ''5'')])" by code_simp
  have m: "mset [page_dl, page_of [], page_fj] = mset ([page_fj] @ page_dl # [page_of []])"
    by simp
  have m': "mset ([page_fj] @ page_dl # [page_of []]) = mset ([page_fj] @ page_dl # [page_of []])"
    by simp
  have r: "read_cell ''m1'' (liasse ''DL'' [(''m1'', ''5'')]) = Inr 5" by code_simp
  have k: "read_cell ''m2'' (liasse ''DL'' [(''m1'', ''5'')]) = Inl KeyError" by code_simp
  have c: "extract_caught KeyError" by (simp add: extract_caught_def)
  show ?thesis
    using unique_code_any_order [OF o h m, of "''m1''" 5]
      unique_code_any_order [OF o h m', of "''m1''" 5]
      unique_code_any_order [OF o h m, of "''m2''" _ KeyError]
      o h m r k c
    by simp
qed

section \<open>SIREN validation\<close>

text \<open>
  What \<^verbatim>\<open>validate_siren\<close> does on a string: it returns the string without its spaces,
  hyphens and periods when nine characters are left and \<^verbatim>\<open>isdigit\<close> holds of each,
  and raises InvalidSirenError otherwise. Nine ASCII digits are always accepted.
\<close>

lemma validate_siren_iff:
  "validate_siren (Some s) allow_none = Inr r \<longleftrightarrow>
   r = Some (strip_separators s) \<and> length (strip_separators s) = 9 \<and>
   list_all py_isdigit_char (strip_separators s)"
  by (auto simp: validate_siren_def Let_def py_isdigit_def)

lemma validate_siren_ascii:
  "length (strip_separators s) = 9 \<Longrightarrow> list_all is_ascii_digit (strip_separators s) \<Longrightarrow>
   validate_siren (Some s) allow_none = Inr (Some (strip_separators s))"
  by (auto simp: validate_siren_def Let_def py_isdigit_def py_isdigit_char_def list_all_iff)

lemma validate_siren_rejects:
  "length (strip_separators s) \<noteq> 9 \<or> \<not> list_all py_isdigit_char (strip_separators s) \<Longrightarrow>
   validate_siren (Some s) allow_none = Inl InvalidSirenError"
  by (auto simp: validate_siren_def Let_def py_isdigit_def)

text \<open>
  Claim C8 says that \<^verbatim>\<open>validate_siren\<close> accepts a string exactly when it reduces to
  nine ASCII digits. The string of nine superscript twos has no ASCII digit, and it is
  accepted and returned as a validated SIREN.
\<close>

theorem superscript_siren_accepted:
  "\<not> list_ex is_ascii_digit superscript_twos \<and>
   validate_siren (Some superscript_twos) False = Inr (Some superscript_twos)"
  by code_simp

end
